theory Spec2Isabelle
  imports Complex_Main "HOL-Library.Word"
begin

section \<open>Inception network assembly (imagenet/model_inception.py)\<close>

text \<open>
  The module builds its networks by calling methods of a \<open>ConvNetBuilder\<close> object
  (\<open>cnn\<close>), imported from \<open>convnet_builder\<close>. What model_inception.py itself
  determines is the sequence of builder methods it invokes and their arguments, so
  the builder is a recorder here: every method appends its invocation, with the
  arguments as written at the call site, to the field \<open>calls\<close>.
\<close>

subsection \<open>Python values at the call sites\<close>

text \<open>
  Arguments are integers, float literals (kept by their decimal value) and strings.
  A layer of a column is the Python tuple \<open>(tag, arg, ...)\<close>, e.g.
  \<open>('conv', 64, 1, 1)\<close> or \<open>('share',)\<close>: the tag and the remaining components.
\<close>

datatype arg = I int | F rat | S string

type_synonym layer = "string \<times> arg list"

type_synonym kwargs = "(string \<times> arg) list"

datatype call =
    Conv "arg list" kwargs
  | Mpool "arg list" kwargs
  | Apool "arg list" kwargs
  | Reshape "int list"
  | Spatial_mean
  | Dropout "arg list"
  | Inception_module string "layer list list"
  | Switch_to_aux_top_layer "call list"

text \<open>
  Failures, under the names of the specification's taxonomy. \<open>UnsupportedModel msg\<close>
  stands for \<open>tf.errors.InvalidArgumentError(None, None, msg)\<close> of line 37;
  \<open>AssertionError\<close> for a failed \<open>assert\<close>; \<open>EmptyBranch\<close>, \<open>ShareIndexOutOfRange\<close>
  and \<open>UnknownOperation\<close> for the failures of the module composer;
  \<open>MalformedRecord\<close> for the engine's failure to parse a record against the schema;
  \<open>ShapeMismatch\<close> for the engine's failure on tensors of incompatible shapes;
  \<open>InvalidLabel\<close> for the engine's failure on a label that is no class index.
\<close>

datatype error =
    UnsupportedModel string
  | AssertionError
  | EmptyBranch
  | ShareIndexOutOfRange
  | UnknownOperation
  | MalformedRecord
  | ShapeMismatch
  | InvalidLabel

record 'img ConvNetBuilder =
  input_op :: 'img
  input_nchan :: int
  phase_train :: bool
  use_tf_layers :: bool
  cnn_data_format :: string
  use_batch_norm :: bool
  aux_top_layer :: "call list option"
  calls :: "call list"

text \<open>
  Modelled from the spec: the class \<open>ConvNetBuilder\<close> is not among the sources.
  \<open>ConvNetBuilder(images, 3, True, True, self._data_format)\<close> keeps its arguments;
  of the builder's state, the fields model_inception.py reads or writes are kept
  (\<open>use_batch_norm\<close>, \<open>aux_top_layer\<close>). The build context holds at most one
  captured auxiliary tensor per network, so a fresh builder has none; a tensor is
  identified by the calls that produced it. A fresh builder has recorded nothing.
\<close>

definition ConvNetBuilder_init ::
  "'img \<Rightarrow> int \<Rightarrow> bool \<Rightarrow> bool \<Rightarrow> string \<Rightarrow> 'img ConvNetBuilder" where
  "ConvNetBuilder_init images nchan train tf_layers fmt =
     \<lparr>input_op = images, input_nchan = nchan, phase_train = train,
      use_tf_layers = tf_layers, cnn_data_format = fmt, use_batch_norm = False,
      aux_top_layer = None, calls = []\<rparr>"

definition record_call :: "call \<Rightarrow> 'img ConvNetBuilder \<Rightarrow> 'img ConvNetBuilder" where
  "record_call c cnn = cnn\<lparr>calls := calls cnn @ [c]\<rparr>"

definition conv :: "arg list \<Rightarrow> kwargs \<Rightarrow> 'img ConvNetBuilder \<Rightarrow> 'img ConvNetBuilder" where
  "conv as kw = record_call (Conv as kw)"

definition mpool :: "arg list \<Rightarrow> kwargs \<Rightarrow> 'img ConvNetBuilder \<Rightarrow> 'img ConvNetBuilder" where
  "mpool as kw = record_call (Mpool as kw)"

definition apool :: "arg list \<Rightarrow> kwargs \<Rightarrow> 'img ConvNetBuilder \<Rightarrow> 'img ConvNetBuilder" where
  "apool as kw = record_call (Apool as kw)"

definition reshape :: "int list \<Rightarrow> 'img ConvNetBuilder \<Rightarrow> 'img ConvNetBuilder" where
  "reshape shape = record_call (Reshape shape)"

definition spatial_mean :: "'img ConvNetBuilder \<Rightarrow> 'img ConvNetBuilder" where
  "spatial_mean = record_call Spatial_mean"

definition dropout :: "arg list \<Rightarrow> 'img ConvNetBuilder \<Rightarrow> 'img ConvNetBuilder" where
  "dropout as = record_call (Dropout as)"

definition inception_module ::
  "string \<Rightarrow> layer list list \<Rightarrow> 'img ConvNetBuilder \<Rightarrow> 'img ConvNetBuilder" where
  "inception_module name cols = record_call (Inception_module name cols)"

text \<open>
  \<open>with cnn.switch_to_aux_top_layer(): body\<close>: the calls made inside the block are
  recorded as one nested entry.
\<close>

definition switch_to_aux_top_layer ::
  "('img ConvNetBuilder \<Rightarrow> 'img ConvNetBuilder) \<Rightarrow> 'img ConvNetBuilder \<Rightarrow> 'img ConvNetBuilder" where
  "switch_to_aux_top_layer body cnn =
     record_call (Switch_to_aux_top_layer (calls (body (cnn\<lparr>calls := []\<rparr>)))) cnn"

text \<open>\<open>for _ in range(n): body(cnn)\<close>\<close>

primrec for_range :: "nat \<Rightarrow> ('s \<Rightarrow> 's) \<Rightarrow> 's \<Rightarrow> 's" where
  "for_range 0 body s = s"
| "for_range (Suc n) body s = for_range n body (body s)"

subsection \<open>The class Inception\<close>

definition inception_list :: "string list" where
  "inception_list = [''inception3'', ''inception4'']"

record Inception =
  auxiliary :: bool
  image_size :: int
  data_format :: string
  model :: string
  image_shape :: "int list"

text \<open>
  \<open>__init__\<close> (lines 33-47). Line 37 constructs an exception object as an expression
  statement: the value is bound to nothing and no \<open>raise\<close> precedes it, so control
  continues with line 39 in either case. The result type keeps an error alternative
  so that completing and failing are distinguishable outcomes.
\<close>

definition Inception_init :: "int \<Rightarrow> string \<Rightarrow> int \<Rightarrow> string \<Rightarrow> error + Inception" where
  "Inception_init image_size' data_format' batch_size model' =
     (let discarded =
            (if model' \<notin> set inception_list
             then Some (UnsupportedModel ''Network Model not found.'') else None)
      in Inr \<lparr>auxiliary = False,
              image_size = image_size',
              data_format = data_format',
              model = model',
              image_shape =
                (if data_format' = ''NCHW''
                 then [batch_size, 3, image_size', image_size']
                 else [batch_size, image_size', image_size', 3])\<rparr>)"

subsection \<open>Inception v3 (lines 56-133)\<close>

definition inception_v3_a :: "'img ConvNetBuilder \<Rightarrow> int \<Rightarrow> 'img ConvNetBuilder" where
  "inception_v3_a cnn n =
     (let cols = [[(''conv'', [I 64, I 1, I 1])],
                  [(''conv'', [I 48, I 1, I 1]), (''conv'', [I 64, I 5, I 5])],
                  [(''conv'', [I 64, I 1, I 1]), (''conv'', [I 96, I 3, I 3]),
                   (''conv'', [I 96, I 3, I 3])],
                  [(''apool'', [I 3, I 3, I 1, I 1, S ''SAME'']), (''conv'', [I n, I 1, I 1])]]
      in inception_module ''incept_v3_a'' cols cnn)"

definition inception_v3_b :: "'img ConvNetBuilder \<Rightarrow> 'img ConvNetBuilder" where
  "inception_v3_b cnn =
     (let cols = [[(''conv'', [I 384, I 3, I 3, I 2, I 2, S ''VALID''])],
                  [(''conv'', [I 64, I 1, I 1]),
                   (''conv'', [I 96, I 3, I 3]),
                   (''conv'', [I 96, I 3, I 3, I 2, I 2, S ''VALID''])],
                  [(''mpool'', [I 3, I 3, I 2, I 2, S ''VALID''])]]
      in inception_module ''incept_v3_b'' cols cnn)"

definition inception_v3_c :: "'img ConvNetBuilder \<Rightarrow> int \<Rightarrow> 'img ConvNetBuilder" where
  "inception_v3_c cnn n =
     (let cols = [[(''conv'', [I 192, I 1, I 1])],
                  [(''conv'', [I n, I 1, I 1]), (''conv'', [I n, I 1, I 7]),
                   (''conv'', [I 192, I 7, I 1])],
                  [(''conv'', [I n, I 1, I 1]), (''conv'', [I n, I 7, I 1]),
                   (''conv'', [I n, I 1, I 7]),
                   (''conv'', [I n, I 7, I 1]), (''conv'', [I 192, I 1, I 7])],
                  [(''apool'', [I 3, I 3, I 1, I 1, S ''SAME'']), (''conv'', [I 192, I 1, I 1])]]
      in inception_module ''incept_v3_c'' cols cnn)"

definition inception_v3_d :: "'img ConvNetBuilder \<Rightarrow> 'img ConvNetBuilder" where
  "inception_v3_d cnn =
     (let cols = [[(''conv'', [I 192, I 1, I 1]),
                   (''conv'', [I 320, I 3, I 3, I 2, I 2, S ''VALID''])],
                  [(''conv'', [I 192, I 1, I 1]), (''conv'', [I 192, I 1, I 7]),
                   (''conv'', [I 192, I 7, I 1]),
                   (''conv'', [I 192, I 3, I 3, I 2, I 2, S ''VALID''])],
                  [(''mpool'', [I 3, I 3, I 2, I 2, S ''VALID''])]]
      in inception_module ''incept_v3_d'' cols cnn)"

definition inception_v3_e :: "'img ConvNetBuilder \<Rightarrow> string \<Rightarrow> 'img ConvNetBuilder" where
  "inception_v3_e cnn pooltype =
     (let cols = [[(''conv'', [I 320, I 1, I 1])],
                  [(''conv'', [I 384, I 1, I 1]), (''conv'', [I 384, I 1, I 3])],
                  [(''share'', []), (''conv'', [I 384, I 3, I 1])],
                  [(''conv'', [I 448, I 1, I 1]), (''conv'', [I 384, I 3, I 3]),
                   (''conv'', [I 384, I 1, I 3])],
                  [(''share'', []), (''share'', []), (''conv'', [I 384, I 3, I 1])],
                  [(if pooltype = ''max'' then ''mpool'' else ''apool'',
                    [I 3, I 3, I 1, I 1, S ''SAME'']),
                   (''conv'', [I 192, I 1, I 1])]]
      in inception_module ''incept_v3_e'' cols cnn)"

text \<open>
  \<open>incept_v3_aux\<close> (lines 99-107): the assertion fails when an auxiliary tensor has
  been captured before; otherwise the current top tensor is captured and the four
  operations of the head are applied inside the \<open>with\<close> block.
\<close>

definition incept_v3_aux :: "'img ConvNetBuilder \<Rightarrow> error + 'img ConvNetBuilder" where
  "incept_v3_aux cnn =
     (if aux_top_layer cnn \<noteq> None then Inl AssertionError
      else
        (let cnn = cnn\<lparr>aux_top_layer := Some (calls cnn)\<rparr>
         in Inr (switch_to_aux_top_layer
                   (\<lambda>cnn.
                      (let cnn = apool [I 5, I 5, I 3, I 3] [(''mode'', S ''VALID'')] cnn;
                           cnn = conv [I 128, I 1, I 1] [(''mode'', S ''SAME'')] cnn;
                           cnn = conv [I 768, I 5, I 5]
                                   [(''mode'', S ''VALID''), (''stddev'', F (1 / 100))] cnn
                       in reshape [- 1, 768] cnn))
                   cnn)))"

definition construct_inception3 ::
  "Inception \<Rightarrow> 'img \<Rightarrow> error + 'img ConvNetBuilder" where
  "construct_inception3 self images =
     (let cnn = ConvNetBuilder_init images 3 True True (data_format self);
          cnn = cnn\<lparr>use_batch_norm := True\<rparr>;
          cnn = conv [I 32, I 3, I 3, I 2, I 2] [(''mode'', S ''VALID'')] cnn;
          cnn = conv [I 32, I 3, I 3, I 1, I 1] [(''mode'', S ''VALID'')] cnn;
          cnn = conv [I 64, I 3, I 3, I 1, I 1] [(''mode'', S ''SAME'')] cnn;
          cnn = mpool [I 3, I 3, I 2, I 2] [(''mode'', S ''VALID'')] cnn;
          cnn = conv [I 80, I 1, I 1, I 1, I 1] [(''mode'', S ''VALID'')] cnn;
          cnn = conv [I 192, I 3, I 3, I 1, I 1] [(''mode'', S ''VALID'')] cnn;
          cnn = mpool [I 3, I 3, I 2, I 2, S ''VALID''] [] cnn;
          cnn = inception_v3_a cnn 32;
          cnn = inception_v3_a cnn 64;
          cnn = inception_v3_a cnn 64;
          cnn = inception_v3_b cnn;
          cnn = inception_v3_c cnn 128;
          cnn = inception_v3_c cnn 160;
          cnn = inception_v3_c cnn 160;
          cnn = inception_v3_c cnn 192
      in case (if auxiliary self then incept_v3_aux cnn else Inr cnn) of
           Inl e \<Rightarrow> Inl e
         | Inr cnn \<Rightarrow>
             (let cnn = inception_v3_d cnn;
                  cnn = inception_v3_e cnn ''avg'';
                  cnn = inception_v3_e cnn ''max'';
                  cnn = apool [I 8, I 8, I 1, I 1, S ''VALID''] [] cnn;
                  last = reshape [- 1, 2048] cnn
              in Inr last))"

subsection \<open>Inception v4 (lines 135-212)\<close>

definition inception_v4_a :: "'img ConvNetBuilder \<Rightarrow> 'img ConvNetBuilder" where
  "inception_v4_a cnn =
     (let cols = [[(''apool'', [I 3, I 3, I 1, I 1, S ''SAME'']), (''conv'', [I 96, I 1, I 1])],
                  [(''conv'', [I 96, I 1, I 1])],
                  [(''conv'', [I 64, I 1, I 1]), (''conv'', [I 96, I 3, I 3])],
                  [(''conv'', [I 64, I 1, I 1]), (''conv'', [I 96, I 3, I 3]),
                   (''conv'', [I 96, I 3, I 3])]]
      in inception_module ''incept_v4_a'' cols cnn)"

definition inception_v4_b :: "'img ConvNetBuilder \<Rightarrow> 'img ConvNetBuilder" where
  "inception_v4_b cnn =
     (let cols = [[(''apool'', [I 3, I 3, I 1, I 1, S ''SAME'']), (''conv'', [I 128, I 1, I 1])],
                  [(''conv'', [I 384, I 1, I 1])],
                  [(''conv'', [I 192, I 1, I 1]), (''conv'', [I 224, I 1, I 7]),
                   (''conv'', [I 256, I 7, I 1])],
                  [(''conv'', [I 192, I 1, I 1]), (''conv'', [I 192, I 1, I 7]),
                   (''conv'', [I 224, I 7, I 1]),
                   (''conv'', [I 224, I 1, I 7]), (''conv'', [I 256, I 7, I 1])]]
      in inception_module ''incept_v4_b'' cols cnn)"

definition inception_v4_c :: "'img ConvNetBuilder \<Rightarrow> 'img ConvNetBuilder" where
  "inception_v4_c cnn =
     (let cols = [[(''apool'', [I 3, I 3, I 1, I 1, S ''SAME'']), (''conv'', [I 256, I 1, I 1])],
                  [(''conv'', [I 256, I 1, I 1])],
                  [(''conv'', [I 384, I 1, I 1]), (''conv'', [I 256, I 1, I 3])],
                  [(''share'', []), (''conv'', [I 256, I 3, I 1])],
                  [(''conv'', [I 384, I 1, I 1]), (''conv'', [I 448, I 1, I 3]),
                   (''conv'', [I 512, I 3, I 1]),
                   (''conv'', [I 256, I 3, I 1])],
                  [(''share'', []), (''share'', []), (''share'', []),
                   (''conv'', [I 256, I 1, I 3])]]
      in inception_module ''incept_v4_c'' cols cnn)"

definition inception_v4_sa :: "'img ConvNetBuilder \<Rightarrow> 'img ConvNetBuilder" where
  "inception_v4_sa cnn =
     (let cols = [[(''mpool'', [I 3, I 3, I 2, I 2, S ''VALID''])],
                  [(''conv'', [I 96, I 3, I 3, I 2, I 2, S ''VALID''])]]
      in inception_module ''incept_v4_sa'' cols cnn)"

definition inception_v4_sb :: "'img ConvNetBuilder \<Rightarrow> 'img ConvNetBuilder" where
  "inception_v4_sb cnn =
     (let cols = [[(''conv'', [I 64, I 1, I 1]),
                   (''conv'', [I 96, I 3, I 3, I 1, I 1, S ''VALID''])],
                  [(''conv'', [I 64, I 1, I 1]), (''conv'', [I 64, I 7, I 1]),
                   (''conv'', [I 64, I 1, I 7]),
                   (''conv'', [I 96, I 3, I 3, I 1, I 1, S ''VALID''])]]
      in inception_module ''incept_v4_sb'' cols cnn)"

definition inception_v4_sc :: "'img ConvNetBuilder \<Rightarrow> 'img ConvNetBuilder" where
  "inception_v4_sc cnn =
     (let cols = [[(''conv'', [I 192, I 3, I 3, I 2, I 2, S ''VALID''])],
                  [(''mpool'', [I 3, I 3, I 2, I 2, S ''VALID''])]]
      in inception_module ''incept_v4_sc'' cols cnn)"

definition inception_v4_ra ::
  "'img ConvNetBuilder \<Rightarrow> int \<Rightarrow> int \<Rightarrow> int \<Rightarrow> int \<Rightarrow> 'img ConvNetBuilder" where
  "inception_v4_ra cnn k l m n =
     (let cols = [[(''mpool'', [I 3, I 3, I 2, I 2, S ''VALID''])],
                  [(''conv'', [I n, I 3, I 3, I 2, I 2, S ''VALID''])],
                  [(''conv'', [I k, I 1, I 1]), (''conv'', [I l, I 3, I 3]),
                   (''conv'', [I m, I 3, I 3, I 2, I 2, S ''VALID''])]]
      in inception_module ''incept_v4_ra'' cols cnn)"

definition inception_v4_rb :: "'img ConvNetBuilder \<Rightarrow> 'img ConvNetBuilder" where
  "inception_v4_rb cnn =
     (let cols = [[(''mpool'', [I 3, I 3, I 2, I 2, S ''VALID''])],
                  [(''conv'', [I 192, I 1, I 1]),
                   (''conv'', [I 192, I 3, I 3, I 2, I 2, S ''VALID''])],
                  [(''conv'', [I 256, I 1, I 1]), (''conv'', [I 256, I 1, I 7]),
                   (''conv'', [I 320, I 7, I 1]),
                   (''conv'', [I 320, I 3, I 3, I 2, I 2, S ''VALID''])]]
      in inception_module ''incept_v4_rb'' cols cnn)"

definition construct_inception4 :: "Inception \<Rightarrow> 'img \<Rightarrow> 'img ConvNetBuilder" where
  "construct_inception4 self images =
     (let cnn = ConvNetBuilder_init images 3 True True (data_format self);
          cnn = cnn\<lparr>use_batch_norm := True\<rparr>;
          cnn = conv [I 32, I 3, I 3, I 2, I 2] [(''mode'', S ''VALID'')] cnn;
          cnn = conv [I 32, I 3, I 3, I 1, I 1] [(''mode'', S ''VALID'')] cnn;
          cnn = conv [I 64, I 3, I 3] [] cnn;
          cnn = inception_v4_sa cnn;
          cnn = inception_v4_sb cnn;
          cnn = inception_v4_sc cnn;
          cnn = for_range 4 inception_v4_a cnn;
          cnn = inception_v4_ra cnn 192 224 256 384;
          cnn = for_range 7 inception_v4_b cnn;
          cnn = inception_v4_rb cnn;
          cnn = for_range 3 inception_v4_c cnn;
          cnn = spatial_mean cnn;
          last = dropout [F (8 / 10)] cnn
      in last)"

text \<open>
  \<open>inference\<close> (lines 49-54): two \<open>if\<close> statements, each returning; when neither
  fires the method body ends and Python returns \<open>None\<close>, modelled as \<open>Inr None\<close>.
  The variable scope of line 50 prefixes the names of the variables the builder
  creates and changes neither the calls nor the control flow.
\<close>

definition inference :: "Inception \<Rightarrow> 'img \<Rightarrow> error + 'img ConvNetBuilder option" where
  "inference self images =
     (if model self = ''inception3''
      then (case construct_inception3 self images of
              Inl e \<Rightarrow> Inl e | Inr net \<Rightarrow> Inr (Some net))
      else if model self = ''inception4''
      then Inr (Some (construct_inception4 self images))
      else Inr None)"

subsection \<open>Observations on a recorded construction\<close>

text \<open>The name under which a recorded call is listed: the method, or for a module its name.\<close>

fun call_label :: "call \<Rightarrow> string" where
  "call_label (Conv as kw) = ''conv''"
| "call_label (Mpool as kw) = ''mpool''"
| "call_label (Apool as kw) = ''apool''"
| "call_label (Reshape shape) = ''reshape''"
| "call_label Spatial_mean = ''spatial_mean''"
| "call_label (Dropout as) = ''dropout''"
| "call_label (Inception_module name cols) = name"
| "call_label (Switch_to_aux_top_layer body) = ''switch_to_aux_top_layer''"

fun is_aux_call :: "call \<Rightarrow> bool" where
  "is_aux_call (Switch_to_aux_top_layer body) = True"
| "is_aux_call c = False"

text \<open>The column lists passed to \<open>inception_module\<close>, in call order.\<close>

fun module_cols :: "call list \<Rightarrow> layer list list list" where
  "module_cols [] = []"
| "module_cols (Inception_module name cols # cs) = cols # module_cols cs"
| "module_cols (c # cs) = module_cols cs"

definition is_share :: "layer \<Rightarrow> bool" where
  "is_share l = (fst l = ''share'')"

definition share_first :: "layer list \<Rightarrow> bool" where
  "share_first col = (case col of [] \<Rightarrow> False | l # ls \<Rightarrow> is_share l)"

text \<open>
  Every \<open>share\<close> at position \<open>i\<close> of a column has an operation at position \<open>i\<close> in the
  column declared immediately before it; \<open>prev\<close> is that column (empty for the first).
\<close>

fun shares_resolve :: "layer list \<Rightarrow> layer list list \<Rightarrow> bool" where
  "shares_resolve prev [] = True"
| "shares_resolve prev (col # cols) =
     (list_all (\<lambda>(i, l). is_share l \<longrightarrow> i < length prev) (enumerate 0 col)
      \<and> shares_resolve col cols)"

definition example_inception3 :: Inception where
  "example_inception3 =
     \<lparr>auxiliary = False, image_size = 299, data_format = ''NHWC'',
      model = ''inception3'', image_shape = [32, 299, 299, 3]\<rparr>"

definition example_inception4 :: Inception where
  "example_inception4 =
     \<lparr>auxiliary = False, image_size = 299, data_format = ''NHWC'',
      model = ''inception4'', image_shape = [32, 299, 299, 3]\<rparr>"

subsection \<open>Channel counts of a recorded construction\<close>

text \<open>
  Modelled from the spec: the Layer Builder's operations (methods of the class
  \<open>ConvNetBuilder\<close>, module convnet_builder, which is not among the sources), as far
  as the channel count of the current top tensor goes. A convolution sets the
  channel count to its \<open>out_channels\<close>, the first component after the tag; pooling
  leaves it unchanged; an unknown tag fails with \<open>UnknownOperation\<close>.
\<close>

definition layer_channels :: "int \<Rightarrow> layer \<Rightarrow> error + int" where
  "layer_channels running l =
     (if fst l = ''conv''
      then (case snd l of I n # as \<Rightarrow> Inr n | _ \<Rightarrow> Inl UnknownOperation)
      else if fst l = ''mpool'' \<or> fst l = ''apool'' then Inr running
      else Inl UnknownOperation)"

text \<open>
  Modelled from the spec: one column of the Inception Module Composer
  (\<open>ConvNetBuilder.inception_module\<close>, not among the sources). The column's running
  tensor starts from the module's input; a \<open>share\<close> at position \<open>i\<close> reuses the
  tensor of the immediately preceding column at position \<open>i\<close> and fails with
  \<open>ShareIndexOutOfRange\<close> when that column has no such position. \<open>acc\<close> holds the
  channel counts of the column's operations applied so far, so the next operation
  has position \<open>length acc\<close>; \<open>prev\<close> holds those of the preceding column.
\<close>

fun apply_column :: "int \<Rightarrow> int list \<Rightarrow> int list \<Rightarrow> layer list \<Rightarrow> error + int list" where
  "apply_column in_size prev acc [] = Inr acc"
| "apply_column in_size prev acc (l # ls) =
     (if is_share l
      then (if length acc < length prev
            then apply_column in_size prev (acc @ [prev ! length acc]) ls
            else Inl ShareIndexOutOfRange)
      else (case layer_channels (if acc = [] then in_size else last acc) l of
              Inl e \<Rightarrow> Inl e
            | Inr n \<Rightarrow> apply_column in_size prev (acc @ [n]) ls))"

text \<open>
  Modelled from the spec: the columns of a module in declaration order
  (\<open>ConvNetBuilder.inception_module\<close>, not among the sources). A column without
  operations fails with \<open>EmptyBranch\<close>; the result lists the channel count of every
  column's final operation, in column order.
\<close>

fun apply_columns :: "int \<Rightarrow> int list \<Rightarrow> layer list list \<Rightarrow> error + int list" where
  "apply_columns in_size prev [] = Inr []"
| "apply_columns in_size prev (col # cols) =
     (if col = [] then Inl EmptyBranch
      else (case apply_column in_size prev [] col of
              Inl e \<Rightarrow> Inl e
            | Inr sizes \<Rightarrow>
                (case apply_columns in_size sizes cols of
                   Inl e \<Rightarrow> Inl e
                 | Inr finals \<Rightarrow> Inr (last sizes # finals))))"

text \<open>
  Modelled from the spec: \<open>apply_module\<close> (\<open>ConvNetBuilder.inception_module\<close>, not
  among the sources). The output concatenates the last tensor of every column along
  the channel axis, so its channel count is the sum of the columns' final counts.
\<close>

definition apply_module :: "layer list list \<Rightarrow> int \<Rightarrow> error + int" where
  "apply_module cols in_size =
     (case apply_columns in_size [] cols of
        Inl e \<Rightarrow> Inl e
      | Inr finals \<Rightarrow> Inr (sum_list finals))"

text \<open>
  Modelled from the spec: the effect of one recorded builder call on the channel
  count of the top tensor (methods of \<open>ConvNetBuilder\<close>, not among the sources).
  Dropout replaces the top tensor without changing its channels; operations inside
  the auxiliary scope act on a side branch and the primary tensor is restored on
  exit. The spatial mean averages each channel over the spatial positions, so the
  feature vector it leaves has one entry per channel; a reshape to \<open>[-1, n]\<close> leaves
  vectors of length \<open>n\<close>.
\<close>

fun run_call :: "call \<Rightarrow> int \<Rightarrow> error + int" where
  "run_call (Conv as kw) top_size =
     (case as of I n # as' \<Rightarrow> Inr n | _ \<Rightarrow> Inl UnknownOperation)"
| "run_call (Mpool as kw) top_size = Inr top_size"
| "run_call (Apool as kw) top_size = Inr top_size"
| "run_call (Reshape shape) top_size =
     (if shape = [] then Inl UnknownOperation else Inr (last shape))"
| "run_call Spatial_mean top_size = Inr top_size"
| "run_call (Dropout as) top_size = Inr top_size"
| "run_call (Inception_module name cols) top_size = apply_module cols top_size"
| "run_call (Switch_to_aux_top_layer body) top_size = Inr top_size"

text \<open>
  Modelled from the spec: the recorded calls in order, stopping at the first failure
  (the builder is a single context mutated by every operation).
\<close>

fun run_calls :: "call list \<Rightarrow> int \<Rightarrow> error + int" where
  "run_calls [] top_size = Inr top_size"
| "run_calls (c # cs) top_size =
     (case run_call c top_size of Inl e \<Rightarrow> Inl e | Inr n \<Rightarrow> run_calls cs n)"

text \<open>
  Modelled from the spec: the length of the feature vector a finished construction
  leaves on top, starting from the channel count the builder was created with.
\<close>

definition feature_length :: "'img ConvNetBuilder \<Rightarrow> error + int" where
  "feature_length cnn = run_calls (calls cnn) (input_nchan cnn)"

text \<open>
  Modelled from the spec: the builder's \<open>dropout(keep_probability)\<close> on the values of
  the top tensor. The builder is not among the sources, and the element-wise rule is
  the numeric engine's dropout primitive: with one uniform draw \<open>u\<close> from \<open>[0, 1)\<close> per
  element, the element is scaled by \<open>1 / keep_probability\<close> and multiplied by the
  mask \<open>floor (keep_probability + u)\<close>, which is 1 with probability
  \<open>keep_probability\<close> and 0 otherwise. Values are real numbers here; the draws are an
  explicit argument.
\<close>

definition dropout_values :: "real \<Rightarrow> real list \<Rightarrow> real list \<Rightarrow> real list" where
  "dropout_values keep_probability draws xs =
     map (\<lambda>(u, x). x / keep_probability * of_int \<lfloor>keep_probability + u\<rfloor>) (zip draws xs)"

section \<open>Record decoding (tools/process_imagenet_data/check_record_data.py)\<close>

text \<open>
  A serialized record is an Example protocol buffer: a dictionary from feature names
  to a list of byte strings, of floats or of 64-bit integers. The decoder moves
  float values without computing on them, so their type is a parameter \<open>'f\<close>.
  Decoding the bytes of the protocol buffer itself is the engine's work; the model
  starts from the dictionary.
\<close>

datatype 'f feature =
    Bytes_list "string list"
  | Float_list "'f list"
  | Int64_list "64 word list"

type_synonym 'f example = "string \<rightharpoonup> 'f feature"

definition bind_result :: "error + 'a \<Rightarrow> ('a \<Rightarrow> error + 'b) \<Rightarrow> error + 'b" where
  "bind_result r f = (case r of Inl e \<Rightarrow> Inl e | Inr x \<Rightarrow> f x)"

text \<open>
  The engine's \<open>parse_single_example\<close> on the three kinds of entries of
  \<open>feature_map\<close> (lines 61-79), by the engine's documented behaviour.
  \<open>FixedLenFeature(shape, dtype, default_value)\<close>: a feature that is absent from the
  record takes \<open>default_value\<close>; one that is present must have the declared type and
  exactly as many values as the shape has elements (one, for \<open>[]\<close> and for \<open>[1]\<close>),
  otherwise parsing fails. \<open>VarLenFeature(dtype)\<close>: an absent feature gives no values;
  one that is present must have the declared type.
\<close>

definition FixedLenFeature_string :: "'f example \<Rightarrow> string \<Rightarrow> string \<Rightarrow> error + string" where
  "FixedLenFeature_string ex key default_value =
     (case ex key of
        None \<Rightarrow> Inr default_value
      | Some (Bytes_list [b]) \<Rightarrow> Inr b
      | Some other \<Rightarrow> Inl MalformedRecord)"

definition FixedLenFeature_int64 ::
  "'f example \<Rightarrow> string \<Rightarrow> 64 word \<Rightarrow> error + 64 word list" where
  "FixedLenFeature_int64 ex key default_value =
     (case ex key of
        None \<Rightarrow> Inr [default_value]
      | Some (Int64_list [i]) \<Rightarrow> Inr [i]
      | Some other \<Rightarrow> Inl MalformedRecord)"

definition VarLenFeature_float32 :: "'f example \<Rightarrow> string \<Rightarrow> error + 'f list" where
  "VarLenFeature_float32 ex key =
     (case ex key of
        None \<Rightarrow> Inr []
      | Some (Float_list fs) \<Rightarrow> Inr fs
      | Some other \<Rightarrow> Inl MalformedRecord)"

text \<open>
  The dictionary \<open>features\<close> returned for this \<open>feature_map\<close>; the sparse entries are
  held by their \<open>.values\<close>.
\<close>

record 'f features =
  image_encoded :: string
  image_class_label :: "64 word list"
  image_class_text :: string
  image_height :: "64 word list"
  image_width :: "64 word list"
  bbox_xmin :: "'f list"
  bbox_ymin :: "'f list"
  bbox_xmax :: "'f list"
  bbox_ymax :: "'f list"

definition parse_single_example :: "'f example \<Rightarrow> error + 'f features" where
  "parse_single_example ex =
     bind_result (FixedLenFeature_string ex ''image/encoded'' []) (\<lambda>encoded.
     bind_result (FixedLenFeature_int64 ex ''image/class/label'' (- 1)) (\<lambda>label.
     bind_result (FixedLenFeature_string ex ''image/class/text'' []) (\<lambda>text.
     bind_result (FixedLenFeature_int64 ex ''image/height'' (- 1)) (\<lambda>height.
     bind_result (FixedLenFeature_int64 ex ''image/width'' (- 1)) (\<lambda>width.
     bind_result (VarLenFeature_float32 ex ''image/object/bbox/xmin'') (\<lambda>xmin.
     bind_result (VarLenFeature_float32 ex ''image/object/bbox/ymin'') (\<lambda>ymin.
     bind_result (VarLenFeature_float32 ex ''image/object/bbox/xmax'') (\<lambda>xmax.
     bind_result (VarLenFeature_float32 ex ''image/object/bbox/ymax'') (\<lambda>ymax.
       Inr \<lparr>image_encoded = encoded, image_class_label = label,
            image_class_text = text, image_height = height, image_width = width,
            bbox_xmin = xmin, bbox_ymin = ymin, bbox_xmax = xmax, bbox_ymax = ymax\<rparr>
     )))))))))"

text \<open>\<open>tf.cast(..., dtype=tf.int32)\<close> of 64-bit integers keeps the low 32 bits.\<close>

definition cast_int32 :: "64 word list \<Rightarrow> 32 word list" where
  "cast_int32 xs = map ucast xs"

text \<open>
  Tensors of rank 2 and 3 are nested lists. \<open>expand_dims(t, 0)\<close> wraps;
  \<open>concat(axis=0)\<close> of rank-2 tensors chains their rows and needs rows of one
  length; \<open>transpose(t, [0, 2, 1])\<close> swaps the two inner axes.
\<close>

definition expand_dims_0 :: "'a \<Rightarrow> 'a list" where
  "expand_dims_0 t = [t]"

definition concat_axis_0 :: "'f list list list \<Rightarrow> error + 'f list list" where
  "concat_axis_0 ts =
     (let rows = concat ts
      in case rows of
           [] \<Rightarrow> Inr rows
         | r # rs \<Rightarrow> if list_all (\<lambda>r'. length r' = length r) rs then Inr rows
                     else Inl ShapeMismatch)"

definition transpose_0_2_1 :: "'f list list list \<Rightarrow> 'f list list list" where
  "transpose_0_2_1 t =
     map (\<lambda>m. case m of
                 [] \<Rightarrow> []
               | r # rs \<Rightarrow> map (\<lambda>j. map (\<lambda>row. row ! j) m) [0..<length r]) t"

text \<open>Lines 84-95: the box tensor of shape \<open>[1, num_boxes, 4]\<close>.\<close>

definition bbox_tensor :: "'f features \<Rightarrow> error + 'f list list list" where
  "bbox_tensor features =
     (let xmin = expand_dims_0 (bbox_xmin features);
          ymin = expand_dims_0 (bbox_ymin features);
          xmax = expand_dims_0 (bbox_xmax features);
          ymax = expand_dims_0 (bbox_ymax features)
      in bind_result (concat_axis_0 [ymin, xmin, ymax, xmax]) (\<lambda>bbox.
           (let bbox = expand_dims_0 bbox;
                bbox = transpose_0_2_1 bbox
            in Inr bbox)))"

text \<open>
  \<open>parse_example_proto\<close> (lines 25-97). The box tensor is computed into the local
  \<open>bbox\<close>, and the \<open>return\<close> of line 97 lists five values, \<open>bbox\<close> not among them; as
  no returned tensor depends on it, its value (or its failure) does not reach the
  caller.
\<close>

definition parse_example_proto ::
  "'f example \<Rightarrow> error + (string \<times> 32 word list \<times> string \<times> 64 word list \<times> 64 word list)" where
  "parse_example_proto example_serialized =
     bind_result (parse_single_example example_serialized) (\<lambda>features.
       (let label = cast_int32 (image_class_label features);
            bbox = bbox_tensor features
        in Inr (image_encoded features, label, image_class_text features,
                image_height features, image_width features)))"

text \<open>The record of the spec's example, with the required fields present.\<close>

definition example_record :: "real example" where
  "example_record =
     [''image/encoded'' \<mapsto> Bytes_list [''JPEG''],
      ''image/class/label'' \<mapsto> Int64_list [615],
      ''image/class/text'' \<mapsto> Bytes_list [''knee pad''],
      ''image/height'' \<mapsto> Int64_list [462],
      ''image/width'' \<mapsto> Int64_list [581],
      ''image/object/bbox/xmin'' \<mapsto> Float_list [1 / 10, 3 / 10],
      ''image/object/bbox/ymin'' \<mapsto> Float_list [2 / 10, 4 / 10],
      ''image/object/bbox/xmax'' \<mapsto> Float_list [9 / 10, 5 / 10],
      ''image/object/bbox/ymax'' \<mapsto> Float_list [6 / 10, 7 / 10]]"

text \<open>A record without \<open>image/encoded\<close>.\<close>

definition record_without_encoded :: "real example" where
  "record_without_encoded =
     [''image/class/label'' \<mapsto> Int64_list [615],
      ''image/class/text'' \<mapsto> Bytes_list [''knee pad''],
      ''image/height'' \<mapsto> Int64_list [462],
      ''image/width'' \<mapsto> Int64_list [581]]"

text \<open>
  The fields a record carries have the type and the number of values the schema
  declares for them.
\<close>

definition string_field_ok :: "'f example \<Rightarrow> string \<Rightarrow> bool" where
  "string_field_ok ex key =
     (case ex key of None \<Rightarrow> True | Some (Bytes_list [b]) \<Rightarrow> True | Some other \<Rightarrow> False)"

definition int64_field_ok :: "'f example \<Rightarrow> string \<Rightarrow> bool" where
  "int64_field_ok ex key =
     (case ex key of None \<Rightarrow> True | Some (Int64_list [i]) \<Rightarrow> True | Some other \<Rightarrow> False)"

definition float_field_ok :: "'f example \<Rightarrow> string \<Rightarrow> bool" where
  "float_field_ok ex key =
     (case ex key of None \<Rightarrow> True | Some (Float_list fs) \<Rightarrow> True | Some other \<Rightarrow> False)"

definition present_fields_ok :: "'f example \<Rightarrow> bool" where
  "present_fields_ok ex =
     (string_field_ok ex ''image/encoded'' \<and> int64_field_ok ex ''image/class/label''
      \<and> string_field_ok ex ''image/class/text'' \<and> int64_field_ok ex ''image/height''
      \<and> int64_field_ok ex ''image/width''
      \<and> float_field_ok ex ''image/object/bbox/xmin''
      \<and> float_field_ok ex ''image/object/bbox/ymin''
      \<and> float_field_ok ex ''image/object/bbox/xmax''
      \<and> float_field_ok ex ''image/object/bbox/ymax'')"

section \<open>Loss (imagenet/model_inception.py, lines 214-218)\<close>

text \<open>
  \<open>loss\<close> is two calls of the numeric engine, modelled by the engine's documented
  behaviour over real numbers. Logits are a list of rows (one per example), labels a
  list of integers. The method does not touch \<open>self\<close>, and the name scope of line
  215 only names the operations.

  The per-example loss of \<open>sparse_softmax_cross_entropy_with_logits\<close> is
  \<open>log (sum of exp of the row) - row[label]\<close>. It needs as many labels as rows, and
  every label to index its row.
\<close>

definition sparse_softmax_cross_entropy_with_logits ::
  "real list list \<Rightarrow> int list \<Rightarrow> error + real list" where
  "sparse_softmax_cross_entropy_with_logits logits labels =
     (if length logits \<noteq> length labels then Inl ShapeMismatch
      else if \<not> list_all (\<lambda>(row, l). 0 \<le> l \<and> l < int (length row)) (zip logits labels)
      then Inl InvalidLabel
      else Inr (map (\<lambda>(row, l). ln (sum_list (map exp row)) - row ! nat l)
                  (zip logits labels)))"

text \<open>
  \<open>tf.losses.sparse_softmax_cross_entropy(logits, labels)\<close> with its default weight
  1.0 and default reduction: the sum of the per-example losses divided by the number
  of examples with non-zero weight (all of them), and 0 when there are none. Its
  result is a scalar.
\<close>

definition losses_sparse_softmax_cross_entropy ::
  "real list list \<Rightarrow> int list \<Rightarrow> error + real" where
  "losses_sparse_softmax_cross_entropy logits labels =
     bind_result (sparse_softmax_cross_entropy_with_logits logits labels) (\<lambda>losses.
       (let num_present = length losses
        in if num_present = 0 then Inr 0
           else Inr (sum_list losses / real num_present)))"

text \<open>\<open>tf.reduce_mean\<close> of a scalar is the scalar: there is one element to average.\<close>

definition reduce_mean_scalar :: "real \<Rightarrow> real" where
  "reduce_mean_scalar x = sum_list [x] / real (length [x])"

definition loss :: "real list list \<Rightarrow> int list \<Rightarrow> error + real" where
  "loss logits labels =
     bind_result (losses_sparse_softmax_cross_entropy logits labels) (\<lambda>cross_entropy.
       (let loss = reduce_mean_scalar cross_entropy
        in Inr loss))"

text \<open>
  The specification's words: the sparse categorical cross-entropy of one example is
  the negated logarithm of the softmax probability of its label, and the loss is the
  arithmetic mean of these over the batch.
\<close>

definition softmax :: "real list \<Rightarrow> nat \<Rightarrow> real" where
  "softmax row k = exp (row ! k) / sum_list (map exp row)"

definition cross_entropy_example :: "real list \<Rightarrow> int \<Rightarrow> real" where
  "cross_entropy_example row l = - ln (softmax row (nat l))"

definition mean_cross_entropy :: "real list list \<Rightarrow> int list \<Rightarrow> real" where
  "mean_cross_entropy logits labels =
     sum_list (map (\<lambda>(row, l). cross_entropy_example row l) (zip logits labels))
       / real (length logits)"

definition labels_in_range :: "real list list \<Rightarrow> int list \<Rightarrow> bool" where
  "labels_in_range logits labels =
     list_all (\<lambda>(row, l). 0 \<le> l \<and> l < int (length row)) (zip logits labels)"

section \<open>Predicates used to state the claims\<close>

text \<open>No column of a module starts with \<open>share\<close>.\<close>

definition no_share_first :: "layer list list \<Rightarrow> bool" where
  "no_share_first cols = list_all (\<lambda>col. \<not> share_first col) cols"

section \<open>Properties of the network assembly\<close>

subsection \<open>Reading a recorded construction\<close>

lemma calls_record_call: "calls (record_call c cnn) = calls cnn @ [c]"
  by (simp add: record_call_def)

lemma aux_record_call: "aux_top_layer (record_call c cnn) = aux_top_layer cnn"
  by (simp add: record_call_def)

lemma nchan_record_call: "input_nchan (record_call c cnn) = input_nchan cnn"
  by (simp add: record_call_def)

lemma for_range_numeral:
  "for_range (numeral k) body s = for_range (pred_numeral k) body (body s)"
  by (simp add: numeral_eq_Suc)

lemmas recorder_simps = calls_record_call aux_record_call nchan_record_call
  for_range_numeral ConvNetBuilder_init_def

lemmas builder_defs = conv_def mpool_def apool_def reshape_def spatial_mean_def dropout_def
  inception_module_def

lemmas v3_defs = inception_v3_a_def inception_v3_b_def inception_v3_c_def inception_v3_d_def
  inception_v3_e_def

lemmas v4_defs = inception_v4_a_def inception_v4_b_def inception_v4_c_def inception_v4_sa_def
  inception_v4_sb_def inception_v4_sc_def inception_v4_ra_def inception_v4_rb_def

lemma inference_inception4:
  "model self = ''inception4'' \<Longrightarrow>
     inference self images = Inr (Some (construct_inception4 self images))"
  by (simp add: inference_def)

lemma init_fields:
  "Inception_init sz fmt b m = Inr self \<Longrightarrow>
     \<not> auxiliary self \<and> model self = m \<and> data_format self = fmt \<and> image_size self = sz"
  by (auto simp: Inception_init_def)

subsection \<open>Construction with an unsupported model name\<close>

text \<open>
  C3 (the code at the claim's input). The claim: for every model name outside
  \<open>{inception3, inception4}\<close>, for example \<open>"inception5"\<close>, constructing the Network
  Assembler fails with UnsupportedModel. The code at \<open>"inception5"\<close>: line 37 builds
  the error value and drops it, and \<open>__init__\<close> completes with the object below.
\<close>

theorem init_inception5_completes:
  "Inception_init 299 ''NHWC'' 32 ''inception5'' =
     Inr \<lparr>auxiliary = False, image_size = 299, data_format = ''NHWC'',
          model = ''inception5'', image_shape = [32, 299, 299, 3]\<rparr>"
  by (simp add: Inception_init_def)

text \<open>
  C9. If an Inception object is constructed with a model name that is neither
  \<open>'inception3'\<close> nor \<open>'inception4'\<close>, construction nevertheless completes, and every
  call to \<open>inference\<close> on that object returns Python's \<open>None\<close> instead of failing.
  No method of the class assigns a field outside \<open>__init__\<close>, so the object a call
  sees is the object \<open>__init__\<close> returned.
\<close>

theorem unsupported_model_inference_none:
  "model' \<notin> set inception_list \<Longrightarrow>
     \<exists>self. Inception_init sz fmt b model' = Inr self
        \<and> (\<forall>images :: 'img. inference self images = Inr None)"
  by (simp add: Inception_init_def inference_def inception_list_def)

theorem unsupported_model_inference_none_witness:
  "''inception5'' \<notin> set inception_list \<and>
   (\<exists>self. Inception_init 299 ''NHWC'' 32 ''inception5'' = Inr self
      \<and> (\<forall>images :: unit. inference self images = Inr None))"
proof -
  have h: "''inception5'' \<notin> set inception_list"
    by (simp add: inception_list_def)
  from unsupported_model_inference_none [where 'img = unit, OF h, of 299 "''NHWC''" 32] h
  show ?thesis by simp
qed

subsection \<open>The auxiliary head\<close>

lemma construct3_no_aux:
  "\<not> auxiliary self \<Longrightarrow>
     \<exists>net. construct_inception3 self images = Inr net
       \<and> \<not> list_ex is_aux_call (calls net) \<and> aux_top_layer net = None"
  by (simp add: construct_inception3_def builder_defs v3_defs Let_def recorder_simps)

lemma construct4_no_aux:
  "\<not> list_ex is_aux_call (calls (construct_inception4 self images))
   \<and> aux_top_layer (construct_inception4 self images) = None"
  by (simp add: construct_inception4_def builder_defs v4_defs Let_def recorder_simps)

text \<open>
  The guard of line 125 is what keeps the head out: with the flag set, the same
  construction records the head and captures the auxiliary tensor.
\<close>

lemma construct3_with_aux:
  "auxiliary self \<Longrightarrow>
     \<exists>net. construct_inception3 self images = Inr net
       \<and> list_ex is_aux_call (calls net) \<and> aux_top_layer net \<noteq> None"
  by (simp add: construct_inception3_def incept_v3_aux_def builder_defs v3_defs Let_def
      recorder_simps switch_to_aux_top_layer_def)

text \<open>
  C10. The auxiliary-head construction (\<open>incept_v3_aux\<close>) is never executed on any
  call to \<open>inference\<close>: the flag \<open>_auxiliary\<close> is \<open>False\<close> in every object \<open>__init__\<close>
  returns, no method assigns it afterwards (the methods take the object and return
  only their result), and the head in \<open>_construct_inception3\<close> is guarded by the
  flag. So every call of \<open>inference\<close> completes, and a network it returns has
  recorded no call of the head and captured no auxiliary tensor; with the flag of
  the same object set, \<open>_construct_inception3\<close> would record the head.
\<close>

theorem aux_head_never_runs:
  "Inception_init sz fmt b m = Inr self \<Longrightarrow>
     \<not> auxiliary self \<and>
     (\<exists>r. inference self images = Inr r \<and>
        (case r of
           None \<Rightarrow> True
         | Some net \<Rightarrow> \<not> list_ex is_aux_call (calls net) \<and> aux_top_layer net = None)) \<and>
     (\<exists>net. construct_inception3 (self\<lparr>auxiliary := True\<rparr>) images = Inr net
        \<and> list_ex is_aux_call (calls net))"
proof -
  assume init: "Inception_init sz fmt b m = Inr self"
  then have flag: "\<not> auxiliary self"
    by (simp add: init_fields)
  from construct3_no_aux [OF flag, of images] obtain net3 where
    n3: "construct_inception3 self images = Inr net3"
      "\<not> list_ex is_aux_call (calls net3)" "aux_top_layer net3 = None"
    by blast
  have "auxiliary (self\<lparr>auxiliary := True\<rparr>)"
    by simp
  from construct3_with_aux [OF this, of images] obtain net where
    guarded: "construct_inception3 (self\<lparr>auxiliary := True\<rparr>) images = Inr net"
      "list_ex is_aux_call (calls net)"
    by blast
  show ?thesis
    using flag n3 guarded construct4_no_aux [of self images]
    by (simp add: inference_def)
qed

theorem aux_head_never_runs_witness:
  "Inception_init 299 ''NHWC'' 32 ''inception3'' = Inr example_inception3 \<and>
   \<not> auxiliary example_inception3 \<and>
   (\<exists>r. inference example_inception3 () = Inr r \<and>
      (case r of
         None \<Rightarrow> True
       | Some net \<Rightarrow> \<not> list_ex is_aux_call (calls net) \<and> aux_top_layer net = None)) \<and>
   (\<exists>net. construct_inception3 (example_inception3\<lparr>auxiliary := True\<rparr>) () = Inr net
      \<and> list_ex is_aux_call (calls net))"
proof -
  have h: "Inception_init 299 ''NHWC'' 32 ''inception3'' = Inr example_inception3"
    by (simp add: Inception_init_def example_inception3_def)
  from aux_head_never_runs [OF h, of "()"] h show ?thesis by simp
qed

subsection \<open>Shared layers in the column lists\<close>

lemma construct4_shares:
  "list_all (shares_resolve []) (module_cols (calls (construct_inception4 self images)))"
  by (simp add: construct_inception4_def builder_defs v4_defs Let_def recorder_simps
      is_share_def)

lemma construct3_shares:
  "construct_inception3 self images = Inr net \<Longrightarrow>
     list_all (shares_resolve []) (module_cols (calls net))"
  by (cases "auxiliary self")
    (auto simp add: construct_inception3_def incept_v3_aux_def builder_defs v3_defs Let_def
      recorder_simps switch_to_aux_top_layer_def is_share_def)

text \<open>
  C4 (as stated, refuted). The claim: in every column list passed to
  \<open>inception_module\<close>, \<open>share\<close> never appears as the first operation of a column. The
  Inception v4 construction passes the columns of \<open>inception_v4_c\<close>, whose fourth and
  sixth columns start with \<open>('share',)\<close>.
\<close>

theorem share_first_counterexample:
  "inference example_inception4 () = Inr (Some (construct_inception4 example_inception4 ()))
   \<and> \<not> list_all no_share_first
         (module_cols (calls (construct_inception4 example_inception4 ())))"
  by (simp add: inference_def example_inception4_def construct_inception4_def builder_defs
      v4_defs Let_def recorder_simps is_share_def no_share_first_def share_first_def)

text \<open>
  C4 (amended). In every column list passed to \<open>inception_module\<close>, across all v3 and
  v4 module definitions, a \<open>share\<close> never appears in the first column of a module,
  and wherever it appears (also as the first operation of a later column) the
  column declared immediately before has an operation at the same position.
\<close>

theorem shares_resolve_in_program:
  "inference self images = Inr (Some net) \<Longrightarrow>
     list_all (shares_resolve []) (module_cols (calls net))"
  using construct3_shares [of self images] construct4_shares [of self images]
  by (auto simp: inference_def split: if_splits sum.splits)

theorem shares_resolve_in_program_witness:
  "inference example_inception4 () = Inr (Some (construct_inception4 example_inception4 ()))
   \<and> list_all (shares_resolve [])
       (module_cols (calls (construct_inception4 example_inception4 ())))"
proof -
  have h: "inference example_inception4 ()
             = Inr (Some (construct_inception4 example_inception4 ()))"
    by (simp add: inference_def example_inception4_def)
  from shares_resolve_in_program [OF h] h show ?thesis by simp
qed

subsection \<open>The Inception v4 sequence\<close>

text \<open>
  C5. The inception4 construction performs a fixed sequence: the three stem
  convolutions and the three stem modules first, then exactly 4 applications of the
  "A" module, a reduction, exactly 7 applications of the "B" module, a reduction,
  exactly 3 applications of the "C" module, then a spatial mean followed by a final
  dropout, in that order, whatever the object and the images.
\<close>

theorem inception4_call_sequence:
  "map call_label (calls (construct_inception4 self images)) =
     [''conv'', ''conv'', ''conv'', ''incept_v4_sa'', ''incept_v4_sb'', ''incept_v4_sc'']
     @ replicate 4 ''incept_v4_a'' @ [''incept_v4_ra'']
     @ replicate 7 ''incept_v4_b'' @ [''incept_v4_rb'']
     @ replicate 3 ''incept_v4_c'' @ [''spatial_mean'', ''dropout'']"
  by (simp add: construct_inception4_def builder_defs v4_defs Let_def recorder_simps
      numeral_eq_Suc)

subsection \<open>Feature length\<close>

lemma construct4_feature_length:
  "feature_length (construct_inception4 self images) = Inr 1536"
  by (simp add: feature_length_def construct_inception4_def builder_defs v4_defs Let_def
      recorder_simps is_share_def apply_module_def layer_channels_def)

text \<open>The v3 construction is the one that ends with 2048 features.\<close>

lemma construct3_feature_length:
  "\<not> auxiliary self \<Longrightarrow>
     \<exists>net. construct_inception3 self images = Inr net \<and> feature_length net = Inr 2048"
  by (simp add: feature_length_def construct_inception3_def builder_defs v3_defs Let_def
      recorder_simps is_share_def apply_module_def layer_channels_def)

lemma dropout_identity:
  "length draws = length xs \<Longrightarrow> \<forall>u\<in>set draws. 0 \<le> u \<and> u < 1 \<Longrightarrow>
     dropout_values 1 draws xs = xs"
proof (induction xs arbitrary: draws)
  case Nil
  then show ?case by (simp add: dropout_values_def)
next
  case (Cons x xs)
  then obtain u us where d: "draws = u # us"
    by (cases draws) auto
  with Cons.prems have u: "0 \<le> u" "u < 1"
    and rest: "length us = length xs" "\<forall>u\<in>set us. 0 \<le> u \<and> u < 1"
    by auto
  have "\<lfloor>1 + u\<rfloor> = 1"
    using u by linarith
  with Cons.IH [OF rest] d show ?case
    by (simp add: dropout_values_def)
qed

text \<open>
  C6 (as stated, refuted). The claim: for Inception v4 the final output of inference
  is a feature vector of length 2048. The last "C" module has six columns ending in
  256 channels each, and the construction for the object below ends with 1536.
\<close>

theorem inception4_feature_length_counterexample:
  "Inception_init 299 ''NHWC'' 32 ''inception4'' = Inr example_inception4
   \<and> inference example_inception4 () = Inr (Some (construct_inception4 example_inception4 ()))
   \<and> feature_length (construct_inception4 example_inception4 ()) = Inr 1536
   \<and> feature_length (construct_inception4 example_inception4 ()) \<noteq> Inr 2048"
  by (simp add: construct4_feature_length Inception_init_def inference_def
      example_inception4_def)

text \<open>
  C6 (amended). For Inception v4, the final output of inference is a feature vector
  of length 1536, the same for every batch size (and every image size, data format
  and input); and applying dropout with keep_probability = 1.0 leaves the tensor
  unchanged.
\<close>

theorem inception4_feature_length_1536:
  assumes "length draws = length xs" and "\<forall>u\<in>set draws. 0 \<le> u \<and> u < 1"
  shows "(\<exists>self net. Inception_init sz fmt batch_size ''inception4'' = Inr self
            \<and> inference self images = Inr (Some net)
            \<and> feature_length net = Inr 1536)
         \<and> dropout_values 1 draws xs = xs"
proof -
  obtain self where init: "Inception_init sz fmt batch_size ''inception4'' = Inr self"
    by (simp add: Inception_init_def)
  then have "model self = ''inception4''"
    by (simp add: init_fields)
  then have "inference self images = Inr (Some (construct_inception4 self images))"
    by (rule inference_inception4)
  with init construct4_feature_length [of self images] dropout_identity [OF assms]
  show ?thesis by blast
qed

theorem inception4_feature_length_1536_witness:
  "length [1 / 2, 1 / 4 :: real] = length [3, - 2 :: real]
   \<and> list_all (\<lambda>u. 0 \<le> u \<and> u < 1) [1 / 2, 1 / 4 :: real]
   \<and> (\<exists>self net. Inception_init 299 ''NCHW'' 64 ''inception4'' = Inr self
          \<and> inference self () = Inr (Some net)
          \<and> feature_length net = Inr 1536)
   \<and> dropout_values 1 [1 / 2, 1 / 4] [3, - 2] = [3, - 2]"
proof -
  have a: "length [1 / 2, 1 / 4 :: real] = length [3, - 2 :: real]"
    by simp
  have b: "\<forall>u\<in>set [1 / 2, 1 / 4 :: real]. 0 \<le> u \<and> u < 1"
    by simp
  have c: "list_all (\<lambda>u. 0 \<le> u \<and> u < 1) [1 / 2, 1 / 4 :: real]"
    by simp
  from inception4_feature_length_1536 [OF a b, of 299 "''NCHW''" 64 "()"] a c
  show ?thesis by blast
qed

section \<open>Properties of the record decoder\<close>

lemmas parse_defs = parse_single_example_def FixedLenFeature_string_def
  FixedLenFeature_int64_def VarLenFeature_float32_def bind_result_def

lemmas bbox_defs = bbox_tensor_def expand_dims_0_def concat_axis_0_def transpose_0_2_1_def

text \<open>
  The box tensor of lines 84-95, when the four coordinate lists have one length:
  one box per position, position \<open>i\<close> of each list going to box \<open>i\<close>, in the order
  (ymin, xmin, ymax, xmax).
\<close>

lemma bbox_tensor_boxes:
  assumes "length (bbox_xmin fs) = n" "length (bbox_ymin fs) = n"
    "length (bbox_xmax fs) = n" "length (bbox_ymax fs) = n"
  shows "bbox_tensor fs =
    Inr [map (\<lambda>i. [bbox_ymin fs ! i, bbox_xmin fs ! i, bbox_ymax fs ! i, bbox_xmax fs ! i])
           [0..<n]]"
  using assms by (simp add: bbox_defs bind_result_def Let_def)

text \<open>
  C1 (the code at the claim's input). The claim: decoding the record with
  xmin=[0.1,0.3], ymin=[0.2,0.4], xmax=[0.9,0.5], ymax=[0.6,0.7] yields the boxes
  [(0.2,0.1,0.6,0.9), (0.4,0.3,0.7,0.5)] as part of the returned Record. The code
  computes exactly this box tensor from the parsed features (second conjunct), but
  what \<open>parse_example_proto\<close> returns is the five values of line 97, the boxes not
  among them (first conjunct).
\<close>

theorem decode_example_omits_boxes:
  "parse_example_proto example_record = Inr (''JPEG'', [615], ''knee pad'', [462], [581])
   \<and> bind_result (parse_single_example example_record) bbox_tensor
       = Inr [[[2 / 10, 1 / 10, 6 / 10, 9 / 10], [4 / 10, 3 / 10, 7 / 10, 5 / 10]]]"
  by (simp add: parse_example_proto_def example_record_def parse_defs bbox_defs
      cast_int32_def Let_def upt_conv_Cons)

subsection \<open>Absent fields\<close>

lemma string_field:
  "string_field_ok ex key \<Longrightarrow>
     \<exists>v. FixedLenFeature_string ex key d = Inr v \<and> (ex key = None \<longrightarrow> v = d)"
  by (auto simp: string_field_ok_def FixedLenFeature_string_def
      split: option.splits feature.splits list.splits)

lemma int64_field:
  "int64_field_ok ex key \<Longrightarrow>
     \<exists>v. FixedLenFeature_int64 ex key d = Inr v \<and> (ex key = None \<longrightarrow> v = [d])"
  by (auto simp: int64_field_ok_def FixedLenFeature_int64_def
      split: option.splits feature.splits list.splits)

lemma float_field:
  "float_field_ok ex key \<Longrightarrow> \<exists>v. VarLenFeature_float32 ex key = Inr v"
  by (auto simp: float_field_ok_def VarLenFeature_float32_def
      split: option.splits feature.splits)

lemma ucast_minus_one: "ucast (- 1 :: 64 word) = (- 1 :: 32 word)"
  by (rule bit_word_eqI) (simp add: bit_ucast_iff)

text \<open>
  C2 (as stated, refuted). The claim: decoding a record missing \<open>image/encoded\<close>
  fails with MalformedRecord rather than returning a Record with a default value.
  The schema of lines 61-71 gives every required field a \<open>default_value\<close>, and the
  record below, which has no \<open>image/encoded\<close>, decodes to a Record with empty image
  bytes.
\<close>

theorem decode_missing_encoded_counterexample:
  "parse_example_proto record_without_encoded = Inr ([], [615], ''knee pad'', [462], [581])"
  by (simp add: parse_example_proto_def record_without_encoded_def parse_defs
      cast_int32_def Let_def)

text \<open>
  C2 (amended). For every serialized record in which some required field
  (image/encoded, image/class/label, image/class/text, image/height or image/width)
  is absent, and whose present fields have the declared type and one value each,
  decode does not fail: it returns a Record in which every absent field holds its
  schema default (empty bytes for image/encoded and image/class/text, -1 for the
  label, the height and the width); in particular, decoding a record missing
  image/encoded returns a Record with empty image bytes.
\<close>

theorem decode_absent_fields_take_defaults:
  assumes "present_fields_ok ex"
  shows "\<exists>encoded label text height width.
           parse_example_proto ex = Inr (encoded, label, text, height, width)
           \<and> (ex ''image/encoded'' = None \<longrightarrow> encoded = [])
           \<and> (ex ''image/class/label'' = None \<longrightarrow> label = [- 1])
           \<and> (ex ''image/class/text'' = None \<longrightarrow> text = [])
           \<and> (ex ''image/height'' = None \<longrightarrow> height = [- 1])
           \<and> (ex ''image/width'' = None \<longrightarrow> width = [- 1])"
proof -
  from assms obtain encoded where e:
    "FixedLenFeature_string ex ''image/encoded'' [] = Inr encoded"
    "ex ''image/encoded'' = None \<longrightarrow> encoded = []"
    using string_field [of ex "''image/encoded''" "[]"]
    by (auto simp: present_fields_ok_def)
  from assms obtain lab where l:
    "FixedLenFeature_int64 ex ''image/class/label'' (- 1) = Inr lab"
    "ex ''image/class/label'' = None \<longrightarrow> lab = [- 1]"
    using int64_field [of ex "''image/class/label''" "- 1"]
    by (auto simp: present_fields_ok_def)
  from assms obtain ctext where t:
    "FixedLenFeature_string ex ''image/class/text'' [] = Inr ctext"
    "ex ''image/class/text'' = None \<longrightarrow> ctext = []"
    using string_field [of ex "''image/class/text''" "[]"]
    by (auto simp: present_fields_ok_def)
  from assms obtain height where h:
    "FixedLenFeature_int64 ex ''image/height'' (- 1) = Inr height"
    "ex ''image/height'' = None \<longrightarrow> height = [- 1]"
    using int64_field [of ex "''image/height''" "- 1"]
    by (auto simp: present_fields_ok_def)
  from assms obtain width where w:
    "FixedLenFeature_int64 ex ''image/width'' (- 1) = Inr width"
    "ex ''image/width'' = None \<longrightarrow> width = [- 1]"
    using int64_field [of ex "''image/width''" "- 1"]
    by (auto simp: present_fields_ok_def)
  from assms have fl:
    "float_field_ok ex ''image/object/bbox/xmin''"
    "float_field_ok ex ''image/object/bbox/ymin''"
    "float_field_ok ex ''image/object/bbox/xmax''"
    "float_field_ok ex ''image/object/bbox/ymax''"
    by (simp_all add: present_fields_ok_def)
  obtain xmin where b1: "VarLenFeature_float32 ex ''image/object/bbox/xmin'' = Inr xmin"
    using float_field [OF fl(1)] by blast
  obtain ymin where b2: "VarLenFeature_float32 ex ''image/object/bbox/ymin'' = Inr ymin"
    using float_field [OF fl(2)] by blast
  obtain xmax where b3: "VarLenFeature_float32 ex ''image/object/bbox/xmax'' = Inr xmax"
    using float_field [OF fl(3)] by blast
  obtain ymax where b4: "VarLenFeature_float32 ex ''image/object/bbox/ymax'' = Inr ymax"
    using float_field [OF fl(4)] by blast
  have "parse_example_proto ex = Inr (encoded, cast_int32 lab, ctext, height, width)"
    using e(1) l(1) t(1) h(1) w(1) b1 b2 b3 b4
    by (simp add: parse_example_proto_def parse_single_example_def bind_result_def Let_def)
  moreover have "ex ''image/class/label'' = None \<longrightarrow> cast_int32 lab = [- 1]"
    using l(2) by (auto simp: cast_int32_def ucast_minus_one)
  ultimately show ?thesis
    using e(2) t(2) h(2) w(2) by simp
qed

theorem decode_absent_fields_take_defaults_witness:
  "present_fields_ok record_without_encoded \<and>
   record_without_encoded ''image/encoded'' = None \<and>
   (\<exists>label text height width.
      parse_example_proto record_without_encoded = Inr ([], label, text, height, width))"
proof -
  have ok: "present_fields_ok record_without_encoded"
    by (simp add: present_fields_ok_def record_without_encoded_def string_field_ok_def
        int64_field_ok_def float_field_ok_def)
  have none: "record_without_encoded ''image/encoded'' = None"
    by (simp add: record_without_encoded_def)
  from decode_absent_fields_take_defaults [OF ok] none ok show ?thesis
    by auto
qed

section \<open>Properties of the loss\<close>

lemma sum_exp_pos: "row \<noteq> [] \<Longrightarrow> 0 < sum_list (map exp (row :: real list))"
proof (induction row)
  case Nil
  then show ?case by simp
next
  case (Cons x xs)
  show ?case
  proof (cases "xs = []")
    case True
    then show ?thesis by simp
  next
    case False
    with Cons.IH have "0 < sum_list (map exp xs)"
      by simp
    moreover have "0 < exp x"
      by simp
    ultimately have "0 < exp x + sum_list (map exp xs)"
      by (simp add: add_pos_pos)
    then show ?thesis by simp
  qed
qed

text \<open>
  The engine's per-example loss is the cross-entropy of the specification's words,
  whenever the label indexes its row.
\<close>

lemma cross_entropy_example_eq:
  assumes "0 \<le> l" "l < int (length row)"
  shows "cross_entropy_example row l = ln (sum_list (map exp row)) - row ! nat l"
proof -
  from assms have "row \<noteq> []"
    by auto
  then have pos: "0 < sum_list (map exp row)"
    by (rule sum_exp_pos)
  have "ln (exp (row ! nat l) / sum_list (map exp row))
          = ln (exp (row ! nat l)) - ln (sum_list (map exp row))"
    using pos by (simp add: ln_div)
  then show ?thesis
    by (simp add: cross_entropy_example_def softmax_def)
qed

lemma per_example_losses:
  "list_all (\<lambda>(row, l). 0 \<le> l \<and> l < int (length row)) rls \<Longrightarrow>
     map (\<lambda>(row, l). ln (sum_list (map exp row)) - row ! nat l) rls
       = map (\<lambda>(row, l). cross_entropy_example row l) rls"
  by (induction rls) (auto simp: cross_entropy_example_eq)

text \<open>
  At an empty batch the engine's reduction returns 0, where an arithmetic mean is
  not defined.
\<close>

lemma loss_empty_batch: "loss [] [] = Inr 0"
  by (simp add: loss_def losses_sparse_softmax_cross_entropy_def
      sparse_softmax_cross_entropy_with_logits_def bind_result_def reduce_mean_scalar_def)

text \<open>
  C7 (as stated, refuted). The claim: for every logits tensor of shape
  [batch, num_classes] and integer labels tensor of shape [batch] with equal batch
  dimensions, \<open>loss(logits, labels)\<close> returns the mean cross-entropy. With one
  example of two classes and the label 2, the shapes are as the claim asks and the
  batch dimensions agree, but the label is no class index: the engine's
  cross-entropy call fails and \<open>loss\<close> returns no scalar.
\<close>

theorem loss_label_out_of_range_counterexample:
  "length [[0, 0 :: real]] = length [2 :: int]
   \<and> loss [[0, 0]] [2] = Inl InvalidLabel
   \<and> loss [[0, 0]] [2] \<noteq> Inr (mean_cross_entropy [[0, 0]] [2])"
  by (simp add: loss_def losses_sparse_softmax_cross_entropy_def
      sparse_softmax_cross_entropy_with_logits_def bind_result_def)

text \<open>
  C7 (amended). For every logits tensor of shape [batch, num_classes] with at least
  one example and integer labels tensor of shape [batch] with equal batch
  dimensions, whose labels are class indices (at least 0 and below num_classes),
  \<open>loss(logits, labels)\<close> returns a scalar equal to the arithmetic mean over the
  batch of the per-example sparse categorical cross-entropy between logits and
  labels. Values are real numbers.
\<close>

theorem loss_is_mean_cross_entropy:
  assumes "logits \<noteq> []" and "length logits = length labels"
    and "labels_in_range logits labels"
  shows "loss logits labels = Inr (mean_cross_entropy logits labels)"
proof -
  from assms(3) have rng:
    "list_all (\<lambda>(row, l). 0 \<le> l \<and> l < int (length row)) (zip logits labels)"
    by (simp add: labels_in_range_def)
  then have "sparse_softmax_cross_entropy_with_logits logits labels
               = Inr (map (\<lambda>(row, l). cross_entropy_example row l) (zip logits labels))"
    using assms(2)
    by (simp add: sparse_softmax_cross_entropy_with_logits_def per_example_losses)
  moreover have "length (zip logits labels) \<noteq> 0"
    using assms(1,2) by (cases logits; cases labels) simp_all
  ultimately show ?thesis
    using assms(2)
    by (simp add: loss_def losses_sparse_softmax_cross_entropy_def bind_result_def
        reduce_mean_scalar_def mean_cross_entropy_def Let_def)
qed

theorem loss_is_mean_cross_entropy_witness:
  "[[0, 0], [0, 0 :: real]] \<noteq> []
   \<and> length [[0, 0], [0, 0 :: real]] = length [0, 1 :: int]
   \<and> labels_in_range [[0, 0], [0, 0]] [0, 1]
   \<and> loss [[0, 0], [0, 0]] [0, 1] = Inr (ln 2)"
proof -
  have a: "[[0, 0], [0, 0 :: real]] \<noteq> []"
    by simp
  have b: "length [[0, 0], [0, 0 :: real]] = length [0, 1 :: int]"
    by simp
  have c: "labels_in_range [[0, 0], [0, 0]] [0, 1]"
    by (simp add: labels_in_range_def)
  have "mean_cross_entropy [[0, 0], [0, 0]] [0, 1] = ln 2"
    by (simp add: mean_cross_entropy_def cross_entropy_example_def softmax_def ln_div)
  with loss_is_mean_cross_entropy [OF a b c] a b c show ?thesis
    by simp
qed

text \<open>
  C8. For every logits and labels pair whose batch dimensions disagree (for example
  logits with batch 8 and labels with batch 4), \<open>loss\<close> fails with ShapeMismatch
  instead of returning a scalar. The failure is the engine's shape check inside the
  cross-entropy call; \<open>loss\<close> has no handler, so it reaches the caller.
\<close>

theorem loss_batch_mismatch:
  "length logits \<noteq> length labels \<Longrightarrow> loss logits labels = Inl ShapeMismatch"
  by (simp add: loss_def losses_sparse_softmax_cross_entropy_def
      sparse_softmax_cross_entropy_with_logits_def bind_result_def)

theorem loss_batch_mismatch_witness:
  "length (replicate 8 [0, 0 :: real]) \<noteq> length (replicate 4 (0 :: int))
   \<and> loss (replicate 8 [0, 0]) (replicate 4 0) = Inl ShapeMismatch"
proof -
  have ne: "length (replicate 8 [0, 0 :: real]) \<noteq> length (replicate 4 (0 :: int))"
    by simp
  from loss_batch_mismatch [OF ne] ne show ?thesis
    by simp
qed

end
